theory Spec2Isabelle
  imports Complex_Main
begin

section \<open>Data model\<close>

text \<open>
  A loaded table is a pandas DataFrame: a row index and an ordered sequence of named,
  typed columns. A cell is a number, a text, a timestamp or the missing marker
  (NaN / NaT / None). Floating-point numbers are idealised as real numbers; boolean
  columns are outside the model. A column is its name, its dtype and its cells.
\<close>

datatype dtype = Float64 | Object | Datetime64

datatype cell = Num real | Str string | Time int | Null

type_synonym column = "string \<times> dtype \<times> cell list"

record table =
  index :: "nat list"
  columns :: "column list"

definition column_names :: "table \<Rightarrow> string list" where
  "column_names df = map fst (columns df)"

text \<open>
  Messages of the source are Chinese texts built from a few arguments; each message is
  one constructor carrying those arguments.
\<close>

datatype err_msg =
    MsgFileNotExists string
  | MsgReadFailed
  | MsgColumnMissing string
  | MsgColumnsMissing "string list"
  | MsgNoValidData
  | MsgNoDataInPeriod
  | MsgTooFewPoints
  | MsgUnsupportedMethod string
  | MsgUnsupportedPeriod string
  | MsgUnparsableDates string
  | MsgUnsupportedFormat string
  | MsgNoEncoding string

text \<open>
  Exceptions are values. \<open>OSError\<close> stands for the operating-system errors and their
  subclasses (a name too long, a permission denied, ...), \<open>LibraryError\<close> for any other
  exception a library call raises (a parser error, ...).
\<close>

datatype exn =
    FileNotFoundError err_msg
  | ValueError err_msg
  | KeyError string
  | TypeError
  | ZeroDivisionError
  | UnicodeDecodeError
  | OSError
  | LibraryError

section \<open>Strings\<close>

text \<open>
  Python's \<open>needle in haystack\<close> and \<open>s.endswith(suffix)\<close>. A text is its UTF-8
  bytes; one text contains another as code points exactly when it does as bytes.
  \<open>s.lower()\<close> lower-cases every cased character of Unicode: it is a parameter
  \<open>lower\<close> of the functions that call it, and what is proved holds for every such
  function. \<open>ascii_lower\<close> is what \<open>s.lower()\<close> gives on texts of ASCII characters; the
  concrete inputs below are such texts.
\<close>

fun starts_with :: "string \<Rightarrow> string \<Rightarrow> bool" where
  "starts_with s [] = True"
| "starts_with [] (p # ps) = False"
| "starts_with (c # s) (p # ps) = (c = p \<and> starts_with s ps)"

fun str_contains :: "string \<Rightarrow> string \<Rightarrow> bool" where
  "str_contains [] needle = (needle = [])"
| "str_contains (c # s) needle = (starts_with (c # s) needle \<or> str_contains s needle)"

definition endswith :: "string \<Rightarrow> string \<Rightarrow> bool" where
  "endswith s suffix = starts_with (rev s) (rev suffix)"

definition ascii_lower_char :: "char \<Rightarrow> char" where
  "ascii_lower_char c =
     (case map_of (zip ''ABCDEFGHIJKLMNOPQRSTUVWXYZ'' ''abcdefghijklmnopqrstuvwxyz'') c of
        Some d \<Rightarrow> d
      | None \<Rightarrow> c)"

definition ascii_lower :: "string \<Rightarrow> string" where
  "ascii_lower s = map ascii_lower_char s"

section \<open>The mapped data loader (mapped_data_loader.py)\<close>

text \<open>
  The file system as the loader sees it: the names in the data root in directory-listing
  order, what \<open>(data_root / name).exists()\<close> gives (true, false, or the error it
  raises: \<open>Path.exists\<close> passes on the errors of the operating system other than
  "not found"), and what reading a file gives. Every access is recorded as an event, so
  that what a call touches can be stated.
\<close>

datatype encoding = UTF8 | GBK | GB2312

datatype io_event =
    IoExists string
  | IoGlob
  | IoReadCsv string encoding
  | IoReadExcel string

record filesys =
  listing :: "string list"
  path_exists :: "string \<Rightarrow> exn + bool"
  read_csv :: "string \<Rightarrow> encoding \<Rightarrow> exn + table"
  read_excel :: "string \<Rightarrow> exn + table"

text \<open>
  The loader object: the alias table and the cache. The alias table is read once at
  construction from the mapping file, or is empty when that fails; it is taken to be a
  dict whose values are dicts of texts, which is how the methods of the loader read it
  (\<open>config["actual_file"]\<close>, \<open>config.get("description", "")\<close>). The cache holds
  references: objects live in a heap, so that "the same object" is a statement about
  identifiers. \<open>io_log\<close> is the trace of file-system accesses, newest last.
\<close>

record loader =
  file_mapping :: "string \<rightharpoonup> (string \<rightharpoonup> string)"
  data_cache :: "string \<rightharpoonup> nat"
  heap :: "nat \<rightharpoonup> table"
  next_id :: nat
  io_log :: "io_event list"


text \<open>
  \<open>data_root_path.glob("*.csv")\<close>: the entries of the listing whose name ends in \<open>.csv\<close>,
  in the letters as written (the pattern is matched case-sensitively on a POSIX system).
\<close>

definition glob_csv :: "filesys \<Rightarrow> string list" where
  "glob_csv fs = filter (\<lambda>f. endswith f ''.csv'') (listing fs)"

text \<open>The loop of \<open>_resolve_file_name\<close> over \<open>glob("*.csv")\<close>: the first match returns.\<close>

fun scan_files :: "(string \<Rightarrow> string) \<Rightarrow> string \<Rightarrow> string list \<Rightarrow> string option" where
  "scan_files lower logical_name [] = None"
| "scan_files lower logical_name (f # fs) =
     (if str_contains (lower f) (lower logical_name) then Some f
      else scan_files lower logical_name fs)"

text \<open>
  \<open>_resolve_file_name\<close>. A missing key \<open>actual_file\<close> raises \<open>KeyError\<close>, and an
  error of \<open>actual_path.exists()\<close> leaves the method: there is no handler.
\<close>

definition resolve_file_name ::
  "(string \<Rightarrow> string) \<Rightarrow> filesys \<Rightarrow> loader \<Rightarrow> string \<Rightarrow> (exn + string) \<times> io_event list" where
  "resolve_file_name lower fs self logical_name =
     (case file_mapping self logical_name of
        Some entry \<Rightarrow>
          (case entry ''actual_file'' of
             Some actual \<Rightarrow> (Inr actual, [])
           | None \<Rightarrow> (Inl (KeyError ''actual_file''), []))
      | None \<Rightarrow>
          (case path_exists fs logical_name of
             Inl e \<Rightarrow> (Inl e, [IoExists logical_name])
           | Inr True \<Rightarrow> (Inr logical_name, [IoExists logical_name])
           | Inr False \<Rightarrow>
               (case scan_files lower logical_name (glob_csv fs) of
                  Some f \<Rightarrow> (Inr f, [IoExists logical_name, IoGlob])
                | None \<Rightarrow> (Inr logical_name, [IoExists logical_name, IoGlob]))))"

text \<open>
  The loop of \<open>load_data\<close> over the encodings: a \<open>UnicodeDecodeError\<close> moves on to the
  next encoding, any other exception leaves the loop, the first success breaks it.
  The result is \<open>df\<close> (\<open>None\<close> when no encoding succeeded) and the reads done.
\<close>

fun try_encodings ::
  "filesys \<Rightarrow> string \<Rightarrow> encoding list \<Rightarrow> (exn + table option) \<times> io_event list" where
  "try_encodings fs path [] = (Inr None, [])"
| "try_encodings fs path (enc # encs) =
     (case read_csv fs path enc of
        Inr df \<Rightarrow> (Inr (Some df), [IoReadCsv path enc])
      | Inl UnicodeDecodeError \<Rightarrow>
          (let (r, evs) = try_encodings fs path encs in (r, IoReadCsv path enc # evs))
      | Inl e \<Rightarrow> (Inl e, [IoReadCsv path enc]))"

definition is_csv :: "string \<Rightarrow> string \<Rightarrow> bool" where
  "is_csv file_name actual_file_name =
     (endswith file_name ''.csv'' \<or> endswith actual_file_name ''.csv'')"

definition is_excel :: "string \<Rightarrow> string \<Rightarrow> bool" where
  "is_excel file_name actual_file_name =
     (endswith file_name ''.xlsx'' \<or> endswith file_name ''.xls''
      \<or> endswith actual_file_name ''.xlsx'' \<or> endswith actual_file_name ''.xls'')"

text \<open>The \<open>try\<close> block of \<open>load_data\<close>: the table read, or the exception re-raised.\<close>

definition read_file ::
  "filesys \<Rightarrow> string \<Rightarrow> string \<Rightarrow> (exn + table) \<times> io_event list" where
  "read_file fs file_name actual_file_name =
     (if is_csv file_name actual_file_name then
        (case try_encodings fs actual_file_name [UTF8, GBK, GB2312] of
           (Inl e, evs) \<Rightarrow> (Inl e, evs)
         | (Inr None, evs) \<Rightarrow> (Inl (ValueError (MsgNoEncoding actual_file_name)), evs)
         | (Inr (Some df), evs) \<Rightarrow> (Inr df, evs))
      else if is_excel file_name actual_file_name then
        (read_excel fs actual_file_name, [IoReadExcel actual_file_name])
      else (Inl (ValueError (MsgUnsupportedFormat file_name)), []))"

text \<open>
  \<open>load_data\<close>: the name is resolved first (an exception of the resolution leaves
  \<open>load_data\<close> at once), then the cache is looked up under the logical name, then the
  file is checked (an error of \<open>file_path.exists()\<close> is raised as it is, a missing file
  raises \<open>FileNotFoundError\<close>) and read, and the new object is stored in the cache under
  the logical name. The keyword arguments passed on to pandas are left out.
\<close>

definition load_data ::
  "(string \<Rightarrow> string) \<Rightarrow> filesys \<Rightarrow> loader \<Rightarrow> string \<Rightarrow> (exn + nat) \<times> loader" where
  "load_data lower fs self file_name =
     (case resolve_file_name lower fs self file_name of
        (Inl e, evs) \<Rightarrow> (Inl e, self\<lparr>io_log := io_log self @ evs\<rparr>)
      | (Inr actual_file_name, evs) \<Rightarrow>
          (let self1 = self\<lparr>io_log := io_log self @ evs\<rparr> in
           case data_cache self1 file_name of
             Some obj \<Rightarrow> (Inr obj, self1)
           | None \<Rightarrow>
               (let self2 = self1\<lparr>io_log := io_log self1 @ [IoExists actual_file_name]\<rparr> in
                case path_exists fs actual_file_name of
                  Inl e \<Rightarrow> (Inl e, self2)
                | Inr False \<Rightarrow>
                    (Inl (FileNotFoundError (MsgFileNotExists actual_file_name)), self2)
                | Inr True \<Rightarrow>
                    (case read_file fs file_name actual_file_name of
                       (Inl e, revs) \<Rightarrow> (Inl e, self2\<lparr>io_log := io_log self2 @ revs\<rparr>)
                     | (Inr df, revs) \<Rightarrow>
                         (let obj = next_id self2 in
                          (Inr obj,
                           self2\<lparr>io_log := io_log self2 @ revs,
                                 heap := (heap self2)(obj \<mapsto> df),
                                 next_id := Suc obj,
                                 data_cache := (data_cache self2)(file_name \<mapsto> obj)\<rparr>))))))"

section \<open>The query layer (mapped_data_loader.py)\<close>

text \<open>
  Frame operations of pandas: \<open>df[names]\<close> keeps, for each requested label in turn, the
  columns that carry it; \<open>df[mask]\<close> keeps the rows whose mask entry is true;
  \<open>df.head(n)\<close> keeps the first \<open>n\<close> rows, or all but the last \<open>-n\<close> for a negative \<open>n\<close>.
\<close>

definition select_columns :: "table \<Rightarrow> string list \<Rightarrow> table" where
  "select_columns df names =
     df\<lparr>columns := concat (map (\<lambda>c. filter (\<lambda>col. fst col = c) (columns df)) names)\<rparr>"

definition keep :: "bool list \<Rightarrow> 'a list \<Rightarrow> 'a list" where
  "keep flags xs = map fst (filter snd (zip xs flags))"

definition select_rows :: "table \<Rightarrow> bool list \<Rightarrow> table" where
  "select_rows df flags =
     \<lparr>index = keep flags (index df),
      columns = map (\<lambda>(c, dt, cells). (c, dt, keep flags cells)) (columns df)\<rparr>"

definition head :: "table \<Rightarrow> int \<Rightarrow> table" where
  "head df n =
     (let k = (if n \<ge> 0 then nat n else length (index df) - nat (- n)) in
      \<lparr>index = take k (index df),
       columns = map (\<lambda>(c, dt, cells). (c, dt, take k cells)) (columns df)\<rparr>)"

text \<open>
  A filter condition is a dict of operator keys or a plain value. The comparison of a
  column with the operand (\<open>==\<close>, \<open>!=\<close>, \<open><\<close>, \<open>isin\<close>, \<open>str.contains\<close>, ...) is the
  library's: it is a parameter that gives the boolean mask or the exception raised.
\<close>

datatype op = OpEq | OpNe | OpGt | OpLt | OpGte | OpLte | OpIn | OpContains

datatype operand = Scalar cell | Values "cell list"

datatype condition = CondDict "(string \<times> operand) list" | CondValue cell

type_synonym row_mask = "op \<Rightarrow> column list \<Rightarrow> operand \<Rightarrow> exn + bool list"

text \<open>The \<open>if\<close>/\<open>elif\<close> chain over the operator keys: the first key present decides.\<close>

fun first_key :: "(string \<times> op) list \<Rightarrow> (string \<times> operand) list \<Rightarrow> (op \<times> operand) option" where
  "first_key [] d = None"
| "first_key ((k, oper) # ks) d =
     (case map_of d k of Some v \<Rightarrow> Some (oper, v) | None \<Rightarrow> first_key ks d)"

definition condition_op :: "(string \<times> operand) list \<Rightarrow> (op \<times> operand) option" where
  "condition_op d =
     first_key [(''eq'', OpEq), (''ne'', OpNe), (''gt'', OpGt), (''lt'', OpLt),
                (''gte'', OpGte), (''lte'', OpLte), (''in'', OpIn), (''contains'', OpContains)] d"

text \<open>The loop over \<open>filters.items()\<close>: a filter on a column the frame lacks is skipped.\<close>

fun apply_filters :: "row_mask \<Rightarrow> table \<Rightarrow> (string \<times> condition) list \<Rightarrow> exn + table" where
  "apply_filters compare df [] = Inr df"
| "apply_filters compare df ((col, cond) # rest) =
     (if col \<notin> set (column_names df) then apply_filters compare df rest
      else
        (case (case cond of CondDict d \<Rightarrow> condition_op d
                          | CondValue v \<Rightarrow> Some (OpEq, Scalar v)) of
           None \<Rightarrow> apply_filters compare df rest
         | Some (oper, v) \<Rightarrow>
             (case compare oper (filter (\<lambda>c. fst c = col) (columns df)) v of
                Inl e \<Rightarrow> Inl e
              | Inr m \<Rightarrow> apply_filters compare (select_rows df m) rest)))"

text \<open>
  \<open>query_data\<close>. \<open>if columns:\<close>, \<open>if filters:\<close> and \<open>if limit:\<close> are false for \<open>None\<close>,
  for an empty list or dict, and for the limit 0. The frame is the cached object; a
  reference the heap does not hold cannot come out of \<open>load_data\<close> and is reported as a
  library error.
\<close>

definition query_data ::
  "row_mask \<Rightarrow> (string \<Rightarrow> string) \<Rightarrow> filesys \<Rightarrow> loader \<Rightarrow> string
     \<Rightarrow> (string \<times> condition) list option
     \<Rightarrow> string list option \<Rightarrow> int option \<Rightarrow> (exn + table) \<times> loader" where
  "query_data compare lower fs self file_name filters cols limit =
     (case load_data lower fs self file_name of
        (Inl e, self') \<Rightarrow> (Inl e, self')
      | (Inr obj, self') \<Rightarrow>
          (case heap self' obj of
             None \<Rightarrow> (Inl LibraryError, self')
           | Some df \<Rightarrow>
               (let df1 =
                      (case cols of
                         None \<Rightarrow> df
                       | Some requested \<Rightarrow>
                           if requested = [] then df
                           else
                             (let available_columns =
                                    filter (\<lambda>col. col \<in> set (column_names df)) requested
                              in if available_columns \<noteq> [] then select_columns df available_columns
                                 else df));
                    df2 =
                      (case filters of
                         None \<Rightarrow> Inr df1
                       | Some fl \<Rightarrow> apply_filters compare df1 fl)
                in case df2 of
                     Inl e \<Rightarrow> (Inl e, self')
                   | Inr df3 \<Rightarrow>
                       (case limit of
                          None \<Rightarrow> (Inr df3, self')
                        | Some n \<Rightarrow> if n = 0 then (Inr df3, self') else (Inr (head df3 n), self')))))"

section \<open>Values returned to the caller\<close>

text \<open>
  A float is a real number or NaN (\<open>None\<close>). Comparisons with NaN are false, and
  arithmetic with NaN gives NaN, as in IEEE arithmetic.
\<close>

type_synonym num = "real option"

definition num_sub :: "num \<Rightarrow> num \<Rightarrow> num" where
  "num_sub a b = (case (a, b) of (Some x, Some y) \<Rightarrow> Some (x - y) | _ \<Rightarrow> None)"

definition num_add :: "num \<Rightarrow> num \<Rightarrow> num" where
  "num_add a b = (case (a, b) of (Some x, Some y) \<Rightarrow> Some (x + y) | _ \<Rightarrow> None)"

definition num_scale :: "real \<Rightarrow> num \<Rightarrow> num" where
  "num_scale k a = (case a of Some x \<Rightarrow> Some (k * x) | None \<Rightarrow> None)"

definition num_less :: "num \<Rightarrow> num \<Rightarrow> bool" where
  "num_less a b = (case (a, b) of (Some x, Some y) \<Rightarrow> x < y | _ \<Rightarrow> False)"

datatype label =
    Normal | NonNormal
  | Strong | Medium | Weak
  | Rising | Falling | Flat
  | StrongPositive | StrongNegative

text \<open>
  The Python values the analyses return: dicts keep their insertion order, the texts
  of the source are labels, and \<open>PModule\<close> is an imported module object.
\<close>

datatype pyval =
    PNone
  | PBool bool
  | PInt int
  | PFloat num
  | PStr string
  | PCell cell
  | PLabel label
  | PMsg err_msg
  | PModule string
  | PList "pyval list"
  | PDict "(string \<times> pyval) list"

definition error_payload :: "err_msg \<Rightarrow> pyval" where
  "error_payload msg = PDict [(''error'', PMsg msg)]"

section \<open>Series operations (pandas)\<close>

text \<open>
  \<open>df[column]\<close> for a column that exists, \<open>dropna\<close>, and the descriptive statistics
  of a series: a series with a text or timestamp cell makes the numeric reductions
  raise \<open>TypeError\<close>; the statistics of an empty series are NaN; \<open>std\<close> is the sample
  standard deviation (one degree of freedom less), NaN for fewer than two values;
  \<open>quantile\<close> interpolates linearly between the two nearest order statistics.
\<close>

definition column_cells :: "table \<Rightarrow> string \<Rightarrow> cell list" where
  "column_cells df c = (case map_of (columns df) c of Some (dt, cells) \<Rightarrow> cells | None \<Rightarrow> [])"

definition dropna :: "cell list \<Rightarrow> cell list" where
  "dropna cells = filter (\<lambda>c. c \<noteq> Null) cells"

fun numeric :: "cell list \<Rightarrow> exn + real list" where
  "numeric [] = Inr []"
| "numeric (Num x # cs) = (case numeric cs of Inl e \<Rightarrow> Inl e | Inr xs \<Rightarrow> Inr (x # xs))"
| "numeric (c # cs) = Inl TypeError"

definition mean :: "real list \<Rightarrow> num" where
  "mean xs = (if xs = [] then None else Some (sum_list xs / real (length xs)))"

definition median :: "real list \<Rightarrow> num" where
  "median xs =
     (let s = sort xs; n = length xs in
      if n = 0 then None
      else if odd n then Some (s ! (n div 2))
      else Some ((s ! (n div 2 - 1) + s ! (n div 2)) / 2))"

definition std :: "real list \<Rightarrow> num" where
  "std xs =
     (case mean xs of
        None \<Rightarrow> None
      | Some m \<Rightarrow>
          if length xs < 2 then None
          else Some (sqrt (sum_list (map (\<lambda>x. (x - m)\<^sup>2) xs) / real (length xs - 1))))"

definition minimum :: "real list \<Rightarrow> num" where
  "minimum xs = (if xs = [] then None else Some (hd (sort xs)))"

definition maximum :: "real list \<Rightarrow> num" where
  "maximum xs = (if xs = [] then None else Some (last (sort xs)))"

definition quantile :: "real list \<Rightarrow> real \<Rightarrow> num" where
  "quantile xs q =
     (let s = sort xs; n = length xs in
      if n = 0 then None
      else
        (let h = q * real (n - 1); lo = nat \<lfloor>h\<rfloor>; hi = min (lo + 1) (n - 1) in
         Some (s ! lo + (h - real lo) * (s ! hi - s ! lo))))"

section \<open>The data query tool (data_query.py)\<close>

text \<open>
  The statistics engine asks its collaborator for \<open>get_data_summary(file_name)\<close> and
  reads the keys \<open>status\<close>, \<open>error\<close> and \<open>data\<close> of the answer: this is the
  \<open>DataQuery\<close> of data_query.py. The directory it reads is given by whether the path
  of a file name exists and by the outcome of the \<open>try\<close> block that reads the CSV file
  and formats its summary. The table is read anew at every call.
\<close>

record data_query =
  file_exists :: "string \<Rightarrow> bool"
  pd_read_csv :: "string \<Rightarrow> exn + table"

datatype data_result = DataError err_msg | DataSuccess table

definition get_data_summary :: "data_query \<Rightarrow> string \<Rightarrow> data_result" where
  "get_data_summary self file_name =
     (if \<not> file_exists self file_name then DataError (MsgFileNotExists file_name)
      else
        (case pd_read_csv self file_name of
           Inr df \<Rightarrow> DataSuccess df
         | Inl e \<Rightarrow> DataError MsgReadFailed))"

section \<open>The statistics engine (data_analyzer.py)\<close>

text \<open>
  The functions of scipy, numpy and pandas that the engine calls on whole series are
  parameters of the model: each field is one library call. \<open>to_datetime\<close> parses a
  column with a format; \<open>dt_part\<close> is \<open>.dt.year\<close>, \<open>.dt.quarter\<close> or \<open>.dt.month\<close>;
  \<open>argsort\<close> is the row order \<open>sort_values\<close> produces; \<open>polyfit\<close> fits a line and
  gives slope and intercept; \<open>rolling_mean\<close> is \<open>rolling(window).mean()\<close>;
  \<open>groupby_agg\<close> gives mean, std, min and max of the values per period;
  \<open>cv_std_mean\<close> gives \<open>cv.std()\<close> and \<open>cv.mean()\<close> of the series
  \<open>cv = grouped['std'] / grouped['mean']\<close>; \<open>between\<close> is the mask
  \<open>(series >= start) & (series <= end)\<close> for bounds given as texts; \<open>corr\<close> gives the
  labels and the columns of the correlation matrix. Infinite floats are outside the model.
\<close>

datatype dt_format = FmtSlash | FmtDash | FmtISO8601 | FmtMixed | FmtDefault

record lib =
  skew :: "real list \<Rightarrow> num"
  kurtosis :: "real list \<Rightarrow> num"
  normaltest :: "real list \<Rightarrow> num \<times> num"
  ttest_ind :: "real list \<Rightarrow> real list \<Rightarrow> num \<times> num"
  to_datetime :: "dt_format \<Rightarrow> cell list \<Rightarrow> exn + cell list"
  dt_part :: "string \<Rightarrow> cell list \<Rightarrow> cell list"
  argsort :: "cell list \<Rightarrow> nat list"
  polyfit :: "real list \<Rightarrow> real list \<Rightarrow> exn + real \<times> real"
  rolling_mean :: "nat \<Rightarrow> real list \<Rightarrow> exn + num list"
  groupby_agg :: "cell list \<Rightarrow> cell list \<Rightarrow> exn + (cell \<times> num \<times> num \<times> num \<times> num) list"
  cv_std_mean :: "(cell \<times> num \<times> num \<times> num \<times> num) list \<Rightarrow> num \<times> num"
  between :: "cell list \<Rightarrow> string \<Rightarrow> string \<Rightarrow> exn + bool list"
  corr :: "column list \<Rightarrow> exn + string list \<times> num list list"

text \<open>
  Frames are objects. The store holds every frame object there is, under its reference,
  with the contents it has now; \<open>next_frame\<close> is the reference the next new object
  gets. The frame that \<open>get_data_summary\<close> has read from the file is a new object of
  the store, and \<open>df = data_result["data"]\<close> binds the local name to its reference.
\<close>

record store =
  frames :: "nat \<rightharpoonup> table"
  next_frame :: nat

definition new_frame :: "store \<Rightarrow> table \<Rightarrow> store" where
  "new_frame st df =
     st\<lparr>frames := (frames st)(next_frame st \<mapsto> df), next_frame := Suc (next_frame st)\<rparr>"

definition frame :: "store \<Rightarrow> nat \<Rightarrow> table" where
  "frame st r = (case frames st r of Some df \<Rightarrow> df | None \<Rightarrow> \<lparr>index = [], columns = []\<rparr>)"

text \<open>
  Every analysis returns what the caller gets (a payload, or the exception that leaves
  the method) and the store as the call leaves it.
\<close>

type_synonym outcome = "(exn + pyval) \<times> store"

text \<open>
  \<open>analyze_distribution\<close>. The local name \<open>stats\<close> is bound twice: to the dict of
  descriptive statistics, and then by \<open>from scipy import stats\<close> to the module.
\<close>

definition analyze_distribution :: "lib \<Rightarrow> data_query \<Rightarrow> store \<Rightarrow> string \<Rightarrow> string \<Rightarrow> outcome" where
  "analyze_distribution scipy dq st file_name column =
     (case get_data_summary dq file_name of
        DataError err \<Rightarrow> (Inr (error_payload err), st)
      | DataSuccess loaded \<Rightarrow>
          let df = next_frame st; st0 = new_frame st loaded in
          if column \<notin> set (column_names (frame st0 df)) then
            (Inr (error_payload (MsgColumnMissing column)), st0)
          else
            (let data = dropna (column_cells (frame st0 df) column) in
             if length data = 0 then (Inr (error_payload MsgNoValidData), st0)
             else
               (case numeric data of
                  Inl e \<Rightarrow> (Inl e, st0)
                | Inr xs \<Rightarrow>
                    (let stats = PDict [(''count'', PInt (int (length data))),
                                        (''mean'', PFloat (mean xs)),
                                        (''median'', PFloat (median xs)),
                                        (''std'', PFloat (std xs)),
                                        (''min'', PFloat (minimum xs)),
                                        (''max'', PFloat (maximum xs))];
                         stats = PModule ''scipy.stats'';
                         skewness = skew scipy xs;
                         kurtosis = kurtosis scipy xs;
                         normality_test =
                           (if length data \<ge> 8 then
                              (let p_value = snd (normaltest scipy xs) in
                               Some (p_value, num_less (Some 0.05) p_value))
                            else None)
                     in (Inr (PDict
                           [(''stats'', stats),
                            (''skewness'', PFloat skewness),
                            (''kurtosis'', PFloat kurtosis),
                            (''distribution_type'',
                               PLabel (case normality_test of
                                         Some (p, True) \<Rightarrow> Normal
                                       | _ \<Rightarrow> NonNormal)),
                            (''normality_test'',
                               (case normality_test of
                                  Some (p, is_normal) \<Rightarrow>
                                    PDict [(''p_value'', PFloat p), (''is_normal'', PBool is_normal)]
                                | None \<Rightarrow> PNone))]),
                         st0)))))"

text \<open>
  \<open>detect_outliers\<close>. The percentage divides two Python integers: a zero divisor
  raises \<open>ZeroDivisionError\<close>.
\<close>

definition percentage :: "nat \<Rightarrow> nat \<Rightarrow> exn + pyval" where
  "percentage k n =
     (if n = 0 then Inl ZeroDivisionError else Inr (PFloat (Some (real k / real n * 100))))"

definition z_score_above :: "num \<Rightarrow> num \<Rightarrow> real \<Rightarrow> real \<Rightarrow> bool" where
  "z_score_above m sd threshold x =
     (case (m, sd) of
        (Some m', Some s) \<Rightarrow> s \<noteq> 0 \<and> \<bar>(x - m') / s\<bar> > threshold
      | _ \<Rightarrow> False)"

definition detect_outliers :: "data_query \<Rightarrow> store \<Rightarrow> string \<Rightarrow> string \<Rightarrow> string \<Rightarrow> outcome" where
  "detect_outliers dq st file_name column method =
     (case get_data_summary dq file_name of
        DataError err \<Rightarrow> (Inr (error_payload err), st)
      | DataSuccess loaded \<Rightarrow>
          let df = next_frame st; st0 = new_frame st loaded in
          if column \<notin> set (column_names (frame st0 df)) then
            (Inr (error_payload (MsgColumnMissing column)), st0)
          else
            (let data = dropna (column_cells (frame st0 df) column) in
             if method = ''iqr'' then
               (case numeric data of
                  Inl e \<Rightarrow> (Inl e, st0)
                | Inr xs \<Rightarrow>
                    (let Q1 = quantile xs 0.25;
                         Q3 = quantile xs 0.75;
                         IQR = num_sub Q3 Q1;
                         lower_bound = num_sub Q1 (num_scale 1.5 IQR);
                         upper_bound = num_add Q3 (num_scale 1.5 IQR);
                         outliers = filter (\<lambda>x. num_less (Some x) lower_bound
                                                \<or> num_less upper_bound (Some x)) xs
                     in case percentage (length outliers) (length data) of
                          Inl e \<Rightarrow> (Inl e, st0)
                        | Inr pct \<Rightarrow>
                            (Inr (PDict
                               [(''method'', PStr ''IQR''),
                                (''lower_bound'', PFloat lower_bound),
                                (''upper_bound'', PFloat upper_bound),
                                (''outliers'', PList (map (\<lambda>x. PFloat (Some x)) outliers)),
                                (''outlier_count'', PInt (int (length outliers))),
                                (''outlier_percentage'', pct)]),
                             st0)))
             else if method = ''zscore'' then
               (case numeric data of
                  Inl e \<Rightarrow> (Inl e, st0)
                | Inr xs \<Rightarrow>
                    (let outliers = filter (z_score_above (mean xs) (std xs) 3) xs
                     in case percentage (length outliers) (length data) of
                          Inl e \<Rightarrow> (Inl e, st0)
                        | Inr pct \<Rightarrow>
                            (Inr (PDict
                               [(''method'', PStr ''Z-score''),
                                (''threshold'', PInt 3),
                                (''outliers'', PList (map (\<lambda>x. PFloat (Some x)) outliers)),
                                (''outlier_count'', PInt (int (length outliers))),
                                (''outlier_percentage'', pct)]),
                             st0)))
             else (Inr (error_payload (MsgUnsupportedMethod method)), st0)))"

subsection \<open>Frames mutated in place\<close>

text \<open>
  \<open>df[c] = series\<close> changes the object that \<open>df\<close> refers to: it replaces the column \<open>c\<close>
  where it stands, or appends it when the frame has no such column. \<open>sort_values\<close> and
  the row selections build new frames, which nothing assigns to; they are kept as values.
\<close>

definition column_dtype :: "table \<Rightarrow> string \<Rightarrow> dtype option" where
  "column_dtype df c = map_option fst (map_of (columns df) c)"

definition set_column :: "table \<Rightarrow> string \<Rightarrow> dtype \<Rightarrow> cell list \<Rightarrow> table" where
  "set_column df c dt cells =
     (if c \<in> set (column_names df) then
        df\<lparr>columns := map (\<lambda>col. if fst col = c then (c, dt, cells) else col) (columns df)\<rparr>
      else df\<lparr>columns := columns df @ [(c, dt, cells)]\<rparr>)"

definition assign :: "store \<Rightarrow> nat \<Rightarrow> string \<Rightarrow> dtype \<Rightarrow> cell list \<Rightarrow> store" where
  "assign st r c dt cells =
     (case frames st r of
        Some df \<Rightarrow> st\<lparr>frames := (frames st)(r \<mapsto> set_column df c dt cells)\<rparr>
      | None \<Rightarrow> st)"




text \<open>
  The nested \<open>try\<close>/\<open>except\<close> blocks around \<open>pd.to_datetime\<close>: the formats are tried in
  turn, the first that parses wins, and the exception of the last one is what remains.
\<close>

fun try_formats :: "lib \<Rightarrow> dt_format list \<Rightarrow> cell list \<Rightarrow> exn + cell list" where
  "try_formats pd [] cells = Inl LibraryError"
| "try_formats pd [f] cells = to_datetime pd f cells"
| "try_formats pd (f # g # fs) cells =
     (case to_datetime pd f cells of
        Inr ts \<Rightarrow> Inr ts
      | Inl e \<Rightarrow> try_formats pd (g # fs) cells)"

subsection \<open>Trend\<close>










subsection \<open>Seasonality\<close>

definition level_of :: "num \<Rightarrow> label" where
  "level_of strength =
     (if num_less (Some 0.5) strength then Strong
      else if num_less (Some 0.2) strength then Medium else Weak)"

definition num_div :: "num \<Rightarrow> num \<Rightarrow> num" where
  "num_div a b = (case (a, b) of (Some x, Some y) \<Rightarrow> if y = 0 then None else Some (x / y) | _ \<Rightarrow> None)"

definition stats_row :: "cell \<times> num \<times> num \<times> num \<times> num \<Rightarrow> pyval" where
  "stats_row r =
     (case r of (k, m, s, lo, hi) \<Rightarrow>
        PList [PCell k, PFloat m, PFloat s, PFloat lo, PFloat hi])"

text \<open>
  \<open>analyze_seasonality\<close>. A date column that no format parses and a period keyword
  other than \<open>year\<close>, \<open>quarter\<close>, \<open>month\<close> each raise \<open>ValueError\<close>; the parsed dates
  and the period of every row are assigned to the columns \<open>time_col\<close> and \<open>period\<close> of
  the frame object itself.
\<close>

definition analyze_seasonality ::
  "lib \<Rightarrow> data_query \<Rightarrow> store \<Rightarrow> string \<Rightarrow> string \<Rightarrow> string \<Rightarrow> string \<Rightarrow> outcome" where
  "analyze_seasonality pd dq st file_name time_col value_col period =
     (case get_data_summary dq file_name of
        DataError err \<Rightarrow> (Inr (error_payload err), st)
      | DataSuccess loaded \<Rightarrow>
          let df = next_frame st; st0 = new_frame st loaded in
          if time_col \<notin> set (column_names (frame st0 df)) then (Inl (KeyError time_col), st0)
          else
            (case (if column_dtype (frame st0 df) time_col = Some Datetime64 then Inr st0
                   else
                     (case try_formats pd [FmtSlash, FmtDash, FmtDefault]
                             (column_cells (frame st0 df) time_col) of
                        Inr ts \<Rightarrow> Inr (assign st0 df time_col Datetime64 ts)
                      | Inl e \<Rightarrow> Inl (ValueError (MsgUnparsableDates time_col)))) of
               Inl e \<Rightarrow> (Inl e, st0)
             | Inr st1 \<Rightarrow>
                 if period \<noteq> ''year'' \<and> period \<noteq> ''quarter'' \<and> period \<noteq> ''month'' then
                   (Inl (ValueError (MsgUnsupportedPeriod period)), st1)
                 else
                   (let st2 = assign st1 df ''period'' Float64
                                (dt_part pd period (column_cells (frame st1 df) time_col)) in
                    if value_col \<notin> set (column_names (frame st2 df)) then
                      (Inl (KeyError value_col), st2)
                    else
                      (case groupby_agg pd (column_cells (frame st2 df) ''period'')
                              (column_cells (frame st2 df) value_col) of
                         Inl e \<Rightarrow> (Inl e, st2)
                       | Inr grouped \<Rightarrow>
                           (let cv_std = fst (cv_std_mean pd grouped);
                                cv_mean = snd (cv_std_mean pd grouped);
                                seasonality_strength =
                                  (if cv_mean \<noteq> Some 0 then num_div cv_std cv_mean else Some 0)
                            in (Inr (PDict
                                  [(''period_type'', PStr period),
                                   (''period_stats'', PList (map stats_row grouped)),
                                   (''seasonality_strength'', PFloat seasonality_strength),
                                   (''seasonality_level'', PLabel (level_of seasonality_strength))]),
                                st2))))))"

subsection \<open>Period comparison\<close>





subsection \<open>Correlation matrix\<close>





section \<open>Vocabulary of the statements\<close>


text \<open>The requested projection columns that a frame has, in the order requested.\<close>

definition available :: "table \<Rightarrow> string list \<Rightarrow> string list" where
  "available df requested = filter (\<lambda>col. col \<in> set (column_names df)) requested"

section \<open>Concrete inputs\<close>

text \<open>
  A data root with four entries, whose CSV files are GBK-encoded; a loader with an empty
  cache and two alias entries, of which the one of \<open>cpi\<close> names no actual file; a data
  root holding only a spreadsheet; a data root whose only file cannot be decoded; a data
  root that may not be searched, so that every existence check raises and the listing is
  empty; and a loader with the same alias entries whose cache already holds the names
  \<open>sales\<close>, \<open>gdp\<close> and \<open>cpi\<close>.
\<close>

definition example_fs :: filesys where
  "example_fs =
     \<lparr>listing = [''notes.txt'', ''Sales_2024.csv'', ''sales_old.csv'', ''Sales.xlsx''],
      path_exists =
        (\<lambda>n. Inr (n \<in> set [''notes.txt'', ''Sales_2024.csv'', ''sales_old.csv'', ''Sales.xlsx''])),
      read_csv =
        (\<lambda>p enc. if enc = GBK then Inr \<lparr>index = [0], columns = [(''x'', Float64, [Num 1])]\<rparr>
                  else Inl UnicodeDecodeError),
      read_excel = (\<lambda>p. Inl LibraryError)\<rparr>"





definition cached_loader :: loader where
  "cached_loader =
     \<lparr>file_mapping =
        [''gdp'' \<mapsto> [''actual_file'' \<mapsto> ''macro_gdp.csv'', ''description'' \<mapsto> ''GDP''],
         ''cpi'' \<mapsto> [''description'' \<mapsto> ''CPI'']],
      data_cache = [''sales'' \<mapsto> 0, ''gdp'' \<mapsto> 1, ''cpi'' \<mapsto> 2],
      heap = [0 \<mapsto> \<lparr>index = [0], columns = [(''x'', Float64, [Num 1])]\<rparr>,
              1 \<mapsto> \<lparr>index = [0], columns = [(''x'', Float64, [Num 1])]\<rparr>,
              2 \<mapsto> \<lparr>index = [0], columns = [(''x'', Float64, [Num 1])]\<rparr>],
      next_id = 3, io_log = []\<rparr>"

text \<open>A directory with the one file \<open>values.csv\<close>, whose single column \<open>x\<close> holds the given cells.\<close>

definition sample_table :: "cell list \<Rightarrow> table" where
  "sample_table cells = \<lparr>index = [0..<length cells], columns = [(''x'', Float64, cells)]\<rparr>"

definition sample_dq :: "cell list \<Rightarrow> data_query" where
  "sample_dq cells =
     \<lparr>file_exists = (\<lambda>n. n = ''values.csv''),
      pd_read_csv = (\<lambda>n. Inr (sample_table cells))\<rparr>"

text \<open>A comparison that implements equality with a scalar and rejects everything else.\<close>

definition eq_mask :: row_mask where
  "eq_mask oper cols v =
     (case (oper, cols, v) of
        (OpEq, [(c, dt, cells)], Scalar x) \<Rightarrow> Inr (map (\<lambda>y. y = x \<and> y \<noteq> Null) cells)
      | _ \<Rightarrow> Inl TypeError)"

text \<open>
  A file \<open>sales.csv\<close> with a text column of two dates and a numeric column, and a
  library that knows these two dates: 15 January and 15 April 2021 are the days 18642 and
  18732 after the epoch, in the quarters 1 and 2. Each period of the example holds one
  row, so that its mean, minimum and maximum are the value itself and its standard
  deviation is NaN.
\<close>

definition season_table :: table where
  "season_table =
     \<lparr>index = [0, 1],
      columns = [(''date'', Object, [Str ''2021/01/15'', Str ''2021/04/15'']),
                 (''value'', Float64, [Num 10, Num 20])]\<rparr>"

definition season_dq :: data_query where
  "season_dq =
     \<lparr>file_exists = (\<lambda>n. n = ''sales.csv''),
      pd_read_csv = (\<lambda>n. Inr season_table)\<rparr>"

definition example_dates :: "(cell \<times> cell) list" where
  "example_dates = [(Str ''2021/01/15'', Time 18642), (Str ''2021/04/15'', Time 18732)]"

definition example_parts :: "string \<Rightarrow> (cell \<times> cell) list" where
  "example_parts part =
     (if part = ''year'' then [(Time 18642, Num 2021), (Time 18732, Num 2021)]
      else if part = ''quarter'' then [(Time 18642, Num 1), (Time 18732, Num 2)]
      else [(Time 18642, Num 1), (Time 18732, Num 4)])"

definition translate :: "(cell \<times> cell) list \<Rightarrow> cell \<Rightarrow> cell" where
  "translate table c = (case map_of table c of Some d \<Rightarrow> d | None \<Rightarrow> Null)"

definition example_lib :: lib where
  "example_lib =
     \<lparr>skew = (\<lambda>xs. None),
      kurtosis = (\<lambda>xs. None),
      normaltest = (\<lambda>xs. (None, None)),
      ttest_ind = (\<lambda>xs ys. (None, None)),
      to_datetime =
        (\<lambda>fmt cells.
           if fmt = FmtSlash \<and> list_all (\<lambda>c. map_of example_dates c \<noteq> None) cells
           then Inr (map (translate example_dates) cells)
           else Inl LibraryError),
      dt_part = (\<lambda>part cells. map (translate (example_parts part)) cells),
      argsort = (\<lambda>cells. [0..<length cells]),
      polyfit = (\<lambda>x y. Inl LibraryError),
      rolling_mean = (\<lambda>w y. Inl LibraryError),
      groupby_agg =
        (\<lambda>periods vals.
           Inr (map (\<lambda>(p, v). case v of Num x \<Rightarrow> (p, Some x, None, Some x, Some x)
                                      | _ \<Rightarrow> (p, None, None, None, None))
                  (zip periods vals))),
      cv_std_mean = (\<lambda>grouped. (None, None)),
      between = (\<lambda>cells start end. Inl LibraryError),
      corr = (\<lambda>cols. Inl LibraryError)\<rparr>"

text \<open>A store that holds one frame, the sales table, before any analysis is called.\<close>

definition example_store :: store where
  "example_store = \<lparr>frames = [0 \<mapsto> season_table], next_frame = 1\<rparr>"

section \<open>Properties of the model\<close>

subsection \<open>Strings and the directory scan\<close>

lemma starts_with_iff: "starts_with s p \<longleftrightarrow> (\<exists>q. s = p @ q)"
  by (induction s p rule: starts_with.induct) auto

lemma str_contains_iff: "str_contains s n \<longleftrightarrow> (\<exists>p q. s = p @ n @ q)"
proof (induction s)
  case Nil
  then show ?case by auto
next
  case (Cons c s)
  show ?case
  proof
    assume "str_contains (c # s) n"
    then consider "starts_with (c # s) n" | "str_contains s n" by auto
    then show "\<exists>p q. c # s = p @ n @ q"
    proof cases
      case 1
      then obtain q where "c # s = n @ q" by (auto simp: starts_with_iff)
      then have "c # s = [] @ n @ q" by simp
      then show ?thesis by blast
    next
      case 2
      then obtain p q where "s = p @ n @ q" using Cons.IH by blast
      then have "c # s = (c # p) @ n @ q" by simp
      then show ?thesis by blast
    qed
  next
    assume "\<exists>p q. c # s = p @ n @ q"
    then obtain p q where pq: "c # s = p @ n @ q" by blast
    show "str_contains (c # s) n"
    proof (cases p)
      case Nil
      then have "starts_with (c # s) n" using pq by (auto simp: starts_with_iff)
      then show ?thesis by simp
    next
      case (Cons a p')
      then have "s = p' @ n @ q" using pq by simp
      then have "str_contains s n" using Cons.IH by blast
      then show ?thesis by simp
    qed
  qed
qed





subsection \<open>Resolution and loading\<close>


lemma resolve_log [simp]:
  "resolve_file_name lower fs (self\<lparr>io_log := l\<rparr>) n = resolve_file_name lower fs self n"
  by (simp add: resolve_file_name_def)














subsection \<open>The sample 1, 2, 3, 4, 100\<close>

lemma quantile_sample_low: "quantile [1, 2, 3, 4, 100] (1 / 4) = Some 2"
  by (simp add: quantile_def Let_def)

lemma quantile_sample_high: "quantile [1, 2, 3, 4, 100] (3 / 4) = Some 4"
  by (simp add: quantile_def Let_def)

lemma mean_sample: "mean [1, 2, 3, 4, 100] = Some 22"
  by (simp add: mean_def)

lemma std_sample: "std [1, 2, 3, 4, 100] = Some (sqrt (3805 / 2))"
  by (simp add: std_def mean_def)

lemma z_score_small:
  assumes "\<bar>x - 22\<bar> \<le> 78"
  shows "\<not> z_score_above (Some 22) (Some (sqrt (3805 / 2))) 3 x"
proof -
  have pos: "0 < sqrt (3805 / 2 :: real)" by simp
  have big: "(26::real) < sqrt (3805 / 2)"
    by (rule real_less_rsqrt) simp
  have "\<bar>(x - 22) / sqrt (3805 / 2)\<bar> = \<bar>x - 22\<bar> / sqrt (3805 / 2)" using pos by simp
  also have "\<dots> \<le> 78 / sqrt (3805 / 2)" using assms pos by (simp add: divide_right_mono)
  also have "\<dots> \<le> 3" using big pos by (simp add: field_simps)
  finally show ?thesis by (simp add: z_score_above_def)
qed

lemma z_scores_sample:
  "filter (z_score_above (mean [1, 2, 3, 4, 100]) (std [1, 2, 3, 4, 100]) 3) [1, 2, 3, 4, 100] = []"
  apply (subst mean_sample)
  apply (subst std_sample)
  apply (simp add: z_score_small)
  done

lemma dropna_sample:
  "dropna [Num 1, Num 2, Num 3, Num 4, Num 100] = [Num 1, Num 2, Num 3, Num 4, Num 100]"
  by (simp add: dropna_def)

subsection \<open>Projection\<close>

lemma select_columns_index: "index (select_columns df names) = index df"
  by (simp add: select_columns_def)

lemma filter_fst_distinct:
  assumes "distinct (map fst xs)" and "c \<in> set (map fst xs)"
  shows "map fst (filter (\<lambda>col. fst col = c) xs) = [c]"
  using assms
proof (induction xs)
  case Nil
  then show ?case by simp
next
  case (Cons x xs)
  show ?case
  proof (cases "fst x = c")
    case True
    with Cons.prems have "c \<notin> set (map fst xs)" by auto
    then have "filter (\<lambda>col. fst col = c) xs = []"
      by (auto simp: filter_empty_conv)
    with True show ?thesis by simp
  next
    case False
    with Cons show ?thesis by auto
  qed
qed

lemma select_columns_names:
  assumes "distinct (column_names df)" and "set names \<subseteq> set (column_names df)"
  shows "column_names (select_columns df names) = names"
  using assms(2)
proof (induction names)
  case Nil
  then show ?case by (simp add: select_columns_def column_names_def)
next
  case (Cons c cs)
  then have "map fst (filter (\<lambda>col. fst col = c) (columns df)) = [c]"
    using assms(1) by (intro filter_fst_distinct) (auto simp: column_names_def)
  moreover have "column_names (select_columns df cs) = cs" using Cons by simp
  ultimately show ?case
    by (simp add: select_columns_def column_names_def)
qed

subsection \<open>The store\<close>

lemma frame_new [simp]: "frame (new_frame st df) (next_frame st) = df"
  by (simp add: frame_def new_frame_def)

lemma assign_new [simp]:
  "assign (new_frame st df) (next_frame st) c dt cells = new_frame st (set_column df c dt cells)"
  by (simp add: assign_def new_frame_def)



subsection \<open>Seasonality and outlier parameters\<close>

lemma season_conv:
  "try_formats example_lib [FmtSlash, FmtDash, FmtDefault] (column_cells season_table ''date'')
   = Inr [Time 18642, Time 18732]"
  by (simp add: example_lib_def season_table_def column_cells_def example_dates_def translate_def)

lemma season_summary: "get_data_summary season_dq ''sales.csv'' = DataSuccess season_table"
  by (simp add: get_data_summary_def season_dq_def)

lemma seasonality_bad_period:
  assumes "get_data_summary dq f = DataSuccess df"
    and "t \<in> set (column_names df)"
    and "column_dtype df t = Some Datetime64
         \<or> (\<exists>ts. try_formats pd [FmtSlash, FmtDash, FmtDefault] (column_cells df t) = Inr ts)"
    and "period \<noteq> ''year'' \<and> period \<noteq> ''quarter'' \<and> period \<noteq> ''month''"
  shows "fst (analyze_seasonality pd dq st f t v period)
         = Inl (ValueError (MsgUnsupportedPeriod period))"
proof (cases "column_dtype df t = Some Datetime64")
  case True
  with assms(1,2,4) show ?thesis
    by (simp add: analyze_seasonality_def Let_def del: try_formats.simps)
next
  case False
  with assms(3) obtain ts
    where "try_formats pd [FmtSlash, FmtDash, FmtDefault] (column_cells df t) = Inr ts" by blast
  with False assms(1,2,4) show ?thesis
    by (simp add: analyze_seasonality_def Let_def del: try_formats.simps)
qed

lemma seasonality_raises:
  assumes "get_data_summary dq f = DataSuccess df"
    and "period \<noteq> ''year'' \<and> period \<noteq> ''quarter'' \<and> period \<noteq> ''month''"
  shows "\<exists>e. fst (analyze_seasonality pd dq st f t v period) = Inl e"
proof (cases "t \<in> set (column_names df)")
  case False
  with assms show ?thesis by (simp add: analyze_seasonality_def Let_def del: try_formats.simps)
next
  case True
  show ?thesis
  proof (cases "column_dtype df t = Some Datetime64")
    case dt: True
    with True assms show ?thesis
      by (simp add: analyze_seasonality_def Let_def del: try_formats.simps)
  next
    case dt: False
    show ?thesis
    proof (cases "try_formats pd [FmtSlash, FmtDash, FmtDefault] (column_cells df t)")
      case (Inl e)
      with True dt assms show ?thesis
        by (simp add: analyze_seasonality_def Let_def del: try_formats.simps)
    next
      case (Inr ts)
      with True dt assms show ?thesis
        by (simp add: analyze_seasonality_def Let_def del: try_formats.simps)
    qed
  qed
qed

lemma outliers_bad_method:
  assumes "method \<noteq> ''iqr'' \<and> method \<noteq> ''zscore''"
  shows "fst (detect_outliers dq st f c method)
         = Inr (error_payload
                  (case get_data_summary dq f of
                     DataError err \<Rightarrow> err
                   | DataSuccess df \<Rightarrow>
                       if c \<in> set (column_names df) then MsgUnsupportedMethod method
                       else MsgColumnMissing c))"
  using assms by (simp add: detect_outliers_def Let_def split: data_result.splits)

lemma season_names: "column_names season_table = [''date'', ''value'']"
  by (simp add: season_table_def column_names_def)

subsection \<open>The store after an analysis\<close>







section \<open>The claims\<close>

subsection \<open>C1: distribution analysis\<close>

text \<open>
  C1. For a column with at least one non-null value, \<open>analyze_distribution\<close> is claimed
  to return under \<open>stats\<close> the mapping of count, mean, median, std, min and max. The
  method builds that mapping, but \<open>from scipy import stats\<close> rebinds the local name
  before the result is assembled: for the file whose column \<open>x\<close> holds 1, 2, 3 the entry
  \<open>stats\<close> of the returned payload is the module \<open>scipy.stats\<close>, whatever the library
  functions compute.
\<close>

theorem analyze_distribution_stats_entry:
  "\<exists>rest. fst (analyze_distribution scipy (sample_dq [Num 1, Num 2, Num 3]) st ''values.csv'' ''x'')
     = Inr (PDict ((''stats'', PModule ''scipy.stats'') # rest))"
  by (simp add: analyze_distribution_def get_data_summary_def sample_dq_def sample_table_def
      column_names_def column_cells_def dropna_def Let_def)

subsection \<open>C2: column projection\<close>

text \<open>
  C2, as stated, gives a result without columns when none of the requested columns
  exists. The code projects only when some requested column exists and otherwise keeps
  the frame as it is: asking the one-column table \<open>sales\<close> for the absent column \<open>y\<close>
  returns the table with its column \<open>x\<close>.
\<close>

theorem query_projection_counterexample:
  "heap cached_loader 0 = Some \<lparr>index = [0], columns = [(''x'', Float64, [Num 1])]\<rparr>
   \<and> fst (load_data ascii_lower example_fs cached_loader ''sales'') = Inr 0
   \<and> fst (query_data eq_mask ascii_lower example_fs cached_loader ''sales'' None (Some [''y'']) None)
     = Inr \<lparr>index = [0], columns = [(''x'', Float64, [Num 1])]\<rparr>"
  by (simp add: query_data_def load_data_def resolve_file_name_def example_fs_def cached_loader_def
      glob_csv_def endswith_def ascii_lower_def ascii_lower_char_def column_names_def Let_def)

text \<open>
  C2, amended. Let the frame loaded for the file be \<open>df\<close>. When some requested column
  exists, a query with no filter and no limit returns \<open>df\<close> projected to the requested
  columns that exist, in the order requested (those are exactly its column names when
  the names of \<open>df\<close> are distinct), and the absent ones are dropped. When none exists,
  the query is the query without projection, whatever filters and limit are given, and
  with no filter and no limit it returns \<open>df\<close> itself, all columns kept. In both cases
  the projection keeps every row and raises nothing.
\<close>

theorem query_projection:
  assumes "load_data lower fs self file_name = (Inr obj, self')" and "heap self' obj = Some df"
  shows "(available df requested \<noteq> []
            \<longrightarrow> fst (query_data compare lower fs self file_name None (Some requested) None)
                = Inr (select_columns df (available df requested)))
       \<and> (available df requested = []
            \<longrightarrow> query_data compare lower fs self file_name filters (Some requested) limit
                = query_data compare lower fs self file_name filters None limit)
       \<and> (available df requested = []
            \<longrightarrow> fst (query_data compare lower fs self file_name None (Some requested) None) = Inr df)
       \<and> index (select_columns df (available df requested)) = index df
       \<and> (distinct (column_names df)
            \<longrightarrow> column_names (select_columns df (available df requested)) = available df requested)"
proof (intro conjI impI)
  assume "available df requested \<noteq> []"
  then have "requested \<noteq> []" by (auto simp: available_def)
  with \<open>available df requested \<noteq> []\<close> assms
  show "fst (query_data compare lower fs self file_name None (Some requested) None)
        = Inr (select_columns df (available df requested))"
    by (simp add: query_data_def available_def Let_def)
next
  assume "available df requested = []"
  with assms
  show "query_data compare lower fs self file_name filters (Some requested) limit
        = query_data compare lower fs self file_name filters None limit"
    by (cases filters; cases limit) (simp_all add: query_data_def available_def Let_def)
next
  assume "available df requested = []"
  with assms
  show "fst (query_data compare lower fs self file_name None (Some requested) None) = Inr df"
    by (simp add: query_data_def available_def Let_def)
next
  show "index (select_columns df (available df requested)) = index df"
    by (rule select_columns_index)
next
  assume "distinct (column_names df)"
  then show "column_names (select_columns df (available df requested)) = available df requested"
    by (rule select_columns_names) (auto simp: available_def)
qed

text \<open>
  Asking the cached one-column table for \<open>y\<close> and \<open>x\<close> keeps \<open>x\<close>; asking it for
  \<open>y\<close> alone keeps the whole table.
\<close>

theorem query_projection_witness:
  "fst (query_data eq_mask ascii_lower example_fs cached_loader ''sales'' None (Some [''y'', ''x'']) None)
     = Inr \<lparr>index = [0], columns = [(''x'', Float64, [Num 1])]\<rparr>
   \<and> fst (query_data eq_mask ascii_lower example_fs cached_loader ''sales'' None (Some [''y'']) None)
     = Inr \<lparr>index = [0], columns = [(''x'', Float64, [Num 1])]\<rparr>"
proof -
  let ?df = "\<lparr>index = [0], columns = [(''x'', Float64, [Num 1])]\<rparr>"
  let ?self' = "snd (load_data ascii_lower example_fs cached_loader ''sales'')"
  have l: "load_data ascii_lower example_fs cached_loader ''sales'' = (Inr 0, ?self')"
    by (simp add: prod_eq_iff load_data_def resolve_file_name_def example_fs_def cached_loader_def
      glob_csv_def endswith_def ascii_lower_def ascii_lower_char_def Let_def)
  have h: "heap ?self' 0 = Some ?df"
    by (simp add: load_data_def resolve_file_name_def example_fs_def cached_loader_def
      glob_csv_def endswith_def ascii_lower_def ascii_lower_char_def Let_def)
  have a1: "available ?df [''y'', ''x''] = [''x'']"
    by (simp add: available_def column_names_def)
  have a2: "available ?df [''y''] = []"
    by (simp add: available_def column_names_def)
  have s: "select_columns ?df [''x''] = ?df"
    by (simp add: select_columns_def)
  note T = query_projection [OF l h, where compare = eq_mask]
  have "fst (query_data eq_mask ascii_lower example_fs cached_loader ''sales'' None (Some [''y'', ''x'']) None)
        = Inr (select_columns ?df (available ?df [''y'', ''x'']))"
    by (rule mp [OF T [THEN conjunct1]]) (simp add: a1)
  then have 1: "fst (query_data eq_mask ascii_lower example_fs cached_loader ''sales'' None (Some [''y'', ''x'']) None)
        = Inr ?df"
    by (simp only: a1 s)
  have 2: "fst (query_data eq_mask ascii_lower example_fs cached_loader ''sales'' None (Some [''y'']) None)
        = Inr ?df"
    by (rule mp [OF T [THEN conjunct2, THEN conjunct2, THEN conjunct1]]) (rule a2)
  from 1 2 show ?thesis by (rule conjI)
qed

subsection \<open>C3: name resolution\<close>




subsection \<open>C4: unsupported period and method keywords\<close>

text \<open>
  C4, as stated, has both operations return a failure payload. \<open>analyze_seasonality\<close>
  raises instead: for a file that loads and whose dates parse, the period keyword
  \<open>week\<close> makes the call leave the method with \<open>ValueError\<close>.
\<close>

theorem seasonality_counterexample:
  "fst (analyze_seasonality example_lib season_dq example_store ''sales.csv'' ''date'' ''value'' ''week'')
   = Inl (ValueError (MsgUnsupportedPeriod ''week''))"
proof (rule seasonality_bad_period [OF season_summary])
  show "''date'' \<in> set (column_names season_table)"
    by (simp add: season_table_def column_names_def)
  show "column_dtype season_table ''date'' = Some Datetime64
         \<or> (\<exists>ts. try_formats example_lib [FmtSlash, FmtDash, FmtDefault]
                    (column_cells season_table ''date'') = Inr ts)"
    using season_conv by blast
  show "''week'' \<noteq> ''year'' \<and> ''week'' \<noteq> ''quarter'' \<and> ''week'' \<noteq> ''month''"
    by simp
qed

text \<open>
  C4, amended. \<open>detect_outliers\<close> with a method other than \<open>iqr\<close> and \<open>zscore\<close>
  always returns a failure payload and never raises: the load failure, the missing
  column, or else the unsupported method. \<open>analyze_seasonality\<close> with a period other
  than \<open>year\<close>, \<open>quarter\<close> and \<open>month\<close> returns the load-failure payload when the
  table cannot be loaded; whenever the table loads it raises an exception to the caller,
  and this exception is \<open>ValueError\<close> for the unsupported period when the time column
  exists and is, or parses to, dates.
\<close>

theorem invalid_parameter:
  "(method \<noteq> ''iqr'' \<and> method \<noteq> ''zscore'' \<longrightarrow>
      fst (detect_outliers dq st f c method)
      = Inr (error_payload
               (case get_data_summary dq f of
                  DataError err \<Rightarrow> err
                | DataSuccess df \<Rightarrow>
                    if c \<in> set (column_names df) then MsgUnsupportedMethod method
                    else MsgColumnMissing c)))
   \<and> (period \<noteq> ''year'' \<and> period \<noteq> ''quarter'' \<and> period \<noteq> ''month'' \<longrightarrow>
        (\<forall>err. get_data_summary dq f = DataError err \<longrightarrow>
           fst (analyze_seasonality pd dq st f t v period) = Inr (error_payload err))
      \<and> (\<forall>df. get_data_summary dq f = DataSuccess df \<longrightarrow>
           (\<exists>e. fst (analyze_seasonality pd dq st f t v period) = Inl e))
      \<and> (\<forall>df. get_data_summary dq f = DataSuccess df \<and> t \<in> set (column_names df)
                \<and> (column_dtype df t = Some Datetime64
                    \<or> (\<exists>ts. try_formats pd [FmtSlash, FmtDash, FmtDefault] (column_cells df t)
                             = Inr ts)) \<longrightarrow>
           fst (analyze_seasonality pd dq st f t v period)
           = Inl (ValueError (MsgUnsupportedPeriod period))))"
proof (intro conjI impI allI)
  assume "method \<noteq> ''iqr'' \<and> method \<noteq> ''zscore''"
  then show "fst (detect_outliers dq st f c method)
      = Inr (error_payload
               (case get_data_summary dq f of
                  DataError err \<Rightarrow> err
                | DataSuccess df \<Rightarrow>
                    if c \<in> set (column_names df) then MsgUnsupportedMethod method
                    else MsgColumnMissing c))"
    by (rule outliers_bad_method)
next
  fix err
  assume "get_data_summary dq f = DataError err"
  then show "fst (analyze_seasonality pd dq st f t v period) = Inr (error_payload err)"
    by (simp add: analyze_seasonality_def)
next
  fix df
  assume "period \<noteq> ''year'' \<and> period \<noteq> ''quarter'' \<and> period \<noteq> ''month''"
    and "get_data_summary dq f = DataSuccess df"
  then show "\<exists>e. fst (analyze_seasonality pd dq st f t v period) = Inl e"
    by (rule seasonality_raises [rotated])
next
  fix df
  assume p: "period \<noteq> ''year'' \<and> period \<noteq> ''quarter'' \<and> period \<noteq> ''month''"
    and h: "get_data_summary dq f = DataSuccess df \<and> t \<in> set (column_names df)
                \<and> (column_dtype df t = Some Datetime64
                    \<or> (\<exists>ts. try_formats pd [FmtSlash, FmtDash, FmtDefault] (column_cells df t)
                             = Inr ts))"
  from h have 1: "get_data_summary dq f = DataSuccess df" by (rule conjunct1)
  from h have 2: "t \<in> set (column_names df)" by simp
  from h have 3: "column_dtype df t = Some Datetime64
                    \<or> (\<exists>ts. try_formats pd [FmtSlash, FmtDash, FmtDefault] (column_cells df t)
                             = Inr ts)" by (simp del: try_formats.simps)
  show "fst (analyze_seasonality pd dq st f t v period)
        = Inl (ValueError (MsgUnsupportedPeriod period))"
    by (rule seasonality_bad_period [OF 1 2 3 p])
qed

text \<open>
  The method \<open>mad\<close> on a one-value column, the period \<open>week\<close> on the sales file,
  and the period \<open>week\<close> on a file that does not exist.
\<close>

theorem invalid_parameter_witness:
  "fst (detect_outliers (sample_dq [Num 1]) example_store ''values.csv'' ''x'' ''mad'')
     = Inr (error_payload (MsgUnsupportedMethod ''mad''))
   \<and> fst (analyze_seasonality example_lib season_dq example_store ''sales.csv'' ''date'' ''value'' ''week'')
     = Inl (ValueError (MsgUnsupportedPeriod ''week''))
   \<and> fst (analyze_seasonality example_lib season_dq example_store ''other.csv'' ''date'' ''value'' ''week'')
     = Inr (error_payload (MsgFileNotExists ''other.csv''))"
proof -
  note T = invalid_parameter [where pd = example_lib and st = example_store
             and t = "''date''" and v = "''value''"]
  have m: "''mad'' \<noteq> ''iqr'' \<and> ''mad'' \<noteq> ''zscore''" by simp
  have p: "''week'' \<noteq> ''year'' \<and> ''week'' \<noteq> ''quarter'' \<and> ''week'' \<noteq> ''month''" by simp
  have s: "get_data_summary (sample_dq [Num 1]) ''values.csv'' = DataSuccess (sample_table [Num 1])"
    by (simp add: get_data_summary_def sample_dq_def)
  have "fst (detect_outliers (sample_dq [Num 1]) example_store ''values.csv'' ''x'' ''mad'')
      = Inr (error_payload
               (case get_data_summary (sample_dq [Num 1]) ''values.csv'' of
                  DataError err \<Rightarrow> err
                | DataSuccess df \<Rightarrow>
                    if ''x'' \<in> set (column_names df) then MsgUnsupportedMethod ''mad''
                    else MsgColumnMissing ''x''))"
    by (rule mp [OF T [THEN conjunct1] m])
  then have 1: "fst (detect_outliers (sample_dq [Num 1]) example_store ''values.csv'' ''x'' ''mad'')
     = Inr (error_payload (MsgUnsupportedMethod ''mad''))"
    by (simp add: s sample_table_def column_names_def)
  note S = mp [OF T [where dq = season_dq and f = "''sales.csv''", THEN conjunct2] p]
  have h: "get_data_summary season_dq ''sales.csv'' = DataSuccess season_table
           \<and> ''date'' \<in> set (column_names season_table)
           \<and> (column_dtype season_table ''date'' = Some Datetime64
               \<or> (\<exists>ts. try_formats example_lib [FmtSlash, FmtDash, FmtDefault]
                          (column_cells season_table ''date'') = Inr ts))"
    using season_summary season_names season_conv by (simp del: try_formats.simps)
  have 2: "fst (analyze_seasonality example_lib season_dq example_store ''sales.csv'' ''date'' ''value'' ''week'')
     = Inl (ValueError (MsgUnsupportedPeriod ''week''))"
    by (rule mp [OF spec [OF S [THEN conjunct2, THEN conjunct2]] h])
  note S' = mp [OF T [where dq = season_dq and f = "''other.csv''", THEN conjunct2] p]
  have e: "get_data_summary season_dq ''other.csv'' = DataError (MsgFileNotExists ''other.csv'')"
    by (simp add: get_data_summary_def season_dq_def)
  have 3: "fst (analyze_seasonality example_lib season_dq example_store ''other.csv'' ''date'' ''value'' ''week'')
     = Inr (error_payload (MsgFileNotExists ''other.csv''))"
    by (rule mp [OF spec [OF S' [THEN conjunct1]] e])
  from 1 2 3 show ?thesis by (intro conjI)
qed

subsection \<open>C6: loading twice\<close>




subsection \<open>C7: the cache hit\<close>




subsection \<open>C8: outliers of 1, 2, 3, 4, 100\<close>

text \<open>
  C8. For a column holding exactly 1, 2, 3, 4, 100 the IQR method has the bounds -1 and
  7 and flags exactly the value 100: one outlier, 20 percent of the column. The z-score
  method with threshold 3 flags nothing: no outlier, 0 percent. Both payloads carry the
  outlier values, their count and their percentage.
\<close>

theorem detect_outliers_sample:
  "fst (detect_outliers (sample_dq [Num 1, Num 2, Num 3, Num 4, Num 100]) st
          ''values.csv'' ''x'' ''iqr'')
     = Inr (PDict [(''method'', PStr ''IQR''),
                   (''lower_bound'', PFloat (Some (- 1))),
                   (''upper_bound'', PFloat (Some 7)),
                   (''outliers'', PList [PFloat (Some 100)]),
                   (''outlier_count'', PInt 1),
                   (''outlier_percentage'', PFloat (Some 20))])
   \<and> fst (detect_outliers (sample_dq [Num 1, Num 2, Num 3, Num 4, Num 100]) st
          ''values.csv'' ''x'' ''zscore'')
     = Inr (PDict [(''method'', PStr ''Z-score''),
                   (''threshold'', PInt 3),
                   (''outliers'', PList []),
                   (''outlier_count'', PInt 0),
                   (''outlier_percentage'', PFloat (Some 0))])"
proof (rule conjI)
  show "fst (detect_outliers (sample_dq [Num 1, Num 2, Num 3, Num 4, Num 100]) st
          ''values.csv'' ''x'' ''iqr'')
     = Inr (PDict [(''method'', PStr ''IQR''),
                   (''lower_bound'', PFloat (Some (- 1))),
                   (''upper_bound'', PFloat (Some 7)),
                   (''outliers'', PList [PFloat (Some 100)]),
                   (''outlier_count'', PInt 1),
                   (''outlier_percentage'', PFloat (Some 20))])"
    by (simp add: detect_outliers_def get_data_summary_def sample_dq_def sample_table_def
        column_names_def column_cells_def dropna_def quantile_sample_low quantile_sample_high
        num_sub_def num_add_def num_scale_def num_less_def percentage_def Let_def)
  show "fst (detect_outliers (sample_dq [Num 1, Num 2, Num 3, Num 4, Num 100]) st
          ''values.csv'' ''x'' ''zscore'')
     = Inr (PDict [(''method'', PStr ''Z-score''),
                   (''threshold'', PInt 3),
                   (''outliers'', PList []),
                   (''outlier_count'', PInt 0),
                   (''outlier_percentage'', PFloat (Some 0))])"
    apply (simp add: detect_outliers_def get_data_summary_def sample_dq_def sample_table_def
        column_names_def column_cells_def dropna_sample percentage_def Let_def del: filter.simps)
    apply (subst z_scores_sample)
    apply simp
    done
qed

subsection \<open>C9: the tables that exist when an analysis is called\<close>



subsection \<open>C10: outlier detection on an empty sample\<close>

text \<open>
  C10. When the table loads and the target column exists but has no non-null value,
  \<open>detect_outliers\<close> with either method reaches the division of the outlier count by
  the number of non-null observations, which is zero: the call leaves the method with
  \<open>ZeroDivisionError\<close> and returns no failure payload.
\<close>

theorem detect_outliers_empty_sample:
  assumes "get_data_summary dq file_name = DataSuccess df"
    and "column \<in> set (column_names df)"
    and "dropna (column_cells df column) = []"
    and "method = ''iqr'' \<or> method = ''zscore''"
  shows "fst (detect_outliers dq st file_name column method) = Inl ZeroDivisionError"
  using assms
  by (auto simp: detect_outliers_def percentage_def Let_def)

text \<open>A column of two missing values, with each of the two methods.\<close>

theorem detect_outliers_empty_sample_witness:
  "fst (detect_outliers (sample_dq [Null, Null]) example_store ''values.csv'' ''x'' ''iqr'')
     = Inl ZeroDivisionError
   \<and> fst (detect_outliers (sample_dq [Null, Null]) example_store ''values.csv'' ''x'' ''zscore'')
     = Inl ZeroDivisionError"
proof -
  have 1: "get_data_summary (sample_dq [Null, Null]) ''values.csv''
           = DataSuccess (sample_table [Null, Null])"
    by (simp add: get_data_summary_def sample_dq_def)
  have 2: "''x'' \<in> set (column_names (sample_table [Null, Null]))"
    by (simp add: column_names_def sample_table_def)
  have 3: "dropna (column_cells (sample_table [Null, Null]) ''x'') = []"
    by (simp add: dropna_def column_cells_def sample_table_def)
  have "fst (detect_outliers (sample_dq [Null, Null]) example_store ''values.csv'' ''x'' ''iqr'')
          = Inl ZeroDivisionError"
    by (rule detect_outliers_empty_sample [OF 1 2 3]) simp
  moreover
  have "fst (detect_outliers (sample_dq [Null, Null]) example_store ''values.csv'' ''x'' ''zscore'')
          = Inl ZeroDivisionError"
    by (rule detect_outliers_empty_sample [OF 1 2 3]) simp
  ultimately show ?thesis by (rule conjI)
qed

end
